theory Spec2Isabelle
  imports Main "HOL-Library.AList" "HOL-Library.Sublist"
begin

section \<open>Values, exceptions and suspension\<close>

text \<open>
  The client of \<^verbatim>\<open>src/deepkit/client.py\<close> exchanges JSON frames. A frame, a queued
  message and a patch value are Python objects built from \<^verbatim>\<open>None\<close>, booleans,
  integers, strings, lists and dicts; floats are left out. A dict is an association
  list in insertion order, as Python keeps it.
\<close>

datatype json = JNull | JBool bool | JInt int | JStr string
  | JList "json list" | JObj "(string \<times> json) list"

type_synonym dict = "(string \<times> json) list"

text \<open>
  Python's \<^verbatim>\<open>==\<close> on these values: \<^verbatim>\<open>True == 1\<close> and \<^verbatim>\<open>False == 0\<close>, lists compare
  element by element, dicts compare by key regardless of order.
\<close>

fun py_eq :: "json \<Rightarrow> json \<Rightarrow> bool"
  and py_eq_list :: "json list \<Rightarrow> json list \<Rightarrow> bool"
  and py_eq_items :: "dict \<Rightarrow> dict \<Rightarrow> bool"
  and py_eq_item :: "string \<Rightarrow> json \<Rightarrow> dict \<Rightarrow> bool"
where
  "py_eq JNull b = (b = JNull)"
| "py_eq (JBool x) b =
     (case b of JBool y \<Rightarrow> x = y | JInt n \<Rightarrow> (if x then 1 else 0) = n | _ \<Rightarrow> False)"
| "py_eq (JInt m) b =
     (case b of JInt n \<Rightarrow> m = n | JBool y \<Rightarrow> m = (if y then 1 else 0) | _ \<Rightarrow> False)"
| "py_eq (JStr s) b = (b = JStr s)"
| "py_eq (JList xs) (JList ys) = py_eq_list xs ys"
| "py_eq (JList xs) _ = False"
| "py_eq (JObj a) (JObj b) = (length a = length b \<and> py_eq_items a b)"
| "py_eq (JObj a) _ = False"
| "py_eq_list [] ys = (ys = [])"
| "py_eq_list (x # xs) [] = False"
| "py_eq_list (x # xs) (y # ys) = (py_eq x y \<and> py_eq_list xs ys)"
| "py_eq_items [] b = True"
| "py_eq_items ((k, v) # a) b = (py_eq_item k v b \<and> py_eq_items a b)"
| "py_eq_item k v [] = False"
| "py_eq_item k v ((k', w) # b) = (if k = k' then py_eq v w else py_eq_item k v b)"

text \<open>
  Exceptions are values. \<open>ConnectionClosedError\<close> and \<open>ConnectionClosedOK\<close> are the two
  subclasses of \<^verbatim>\<open>websockets.exceptions.ConnectionClosed\<close>; \<open>ApiError\<close> is the class
  declared in the source; every constructor is a subclass of Python's \<^verbatim>\<open>Exception\<close>.
\<close>

datatype exn = KeyError string | TypeError string | ValueError string
  | AttributeError string | Exception string | ApiError string
  | ConnectionClosedError | ConnectionClosedOK | InvalidStateError

fun is_connection_closed :: "exn \<Rightarrow> bool" where
  "is_connection_closed ConnectionClosedError = True"
| "is_connection_closed ConnectionClosedOK = True"
| "is_connection_closed _ = False"

fun is_api_error :: "exn \<Rightarrow> bool" where
  "is_api_error (ApiError _) = True"
| "is_api_error _ = False"

text \<open>
  A coroutine either returns, raises, or is suspended: at \<^verbatim>\<open>await self.connecting\<close>
  while that future is pending (\<open>AwaitConnecting\<close>), on the future stored in
  \<^verbatim>\<open>self.callbacks\<close> under an id (\<open>AwaitReply\<close>), or at an await that nothing
  completes within the run observed (\<open>Waiting\<close>).
\<close>

datatype 'a res = Ret 'a | Raised exn | AwaitConnecting | AwaitReply int | Waiting

datatype 'a future = Pending | Done 'a

section \<open>The client's state\<close>

text \<open>
  A controller is the Python object passed to \<^verbatim>\<open>register_controller\<close>: its class
  name and its attributes. An attribute is described by what
  \<^verbatim>\<open>inspect.getfullargspec(...).args\<close> lists for it and by what calling it with
  positional arguments does: \<open>Inr v\<close> returns \<open>v\<close>, \<open>Inl e\<close> raises \<open>e\<close>.
\<close>

record callable =
  m_args :: "string list"
  m_call :: "json list \<Rightarrow> exn + json"

record controller =
  c_class :: string
  c_attrs :: "(string \<times> callable) list"

text \<open>
  The only handler the source ever passes to \<^verbatim>\<open>_subscribe\<close> is the closure
  \<^verbatim>\<open>subscriber\<close> of \<^verbatim>\<open>register_controller\<close>, which captures \<^verbatim>\<open>name\<close> and
  \<^verbatim>\<open>controller\<close>.
\<close>

datatype handler = RegisterSubscriber string controller

text \<open>
  A websocket connection object: its \<^verbatim>\<open>closed\<close> property and the frames that
  \<^verbatim>\<open>send\<close> has accepted, in order. A frame is identified with the value given to
  \<^verbatim>\<open>json.dumps\<close>.
\<close>

record conn =
  closed :: bool
  sent :: "json list"

datatype task = ConnectTask | HandleMessagesTask nat | SendMessagesTask nat

text \<open>
  The fields of \<^verbatim>\<open>Client.__init__\<close>. \<open>callbacks\<close> holds the keys of the dict of
  futures: a future is in that dict exactly while it is pending, since the only
  \<^verbatim>\<open>set_result\<close> of the source is followed by \<^verbatim>\<open>del\<close>; \<open>resolved\<close> records, in
  order, which future was resolved with which message. Connection objects live in
  the store \<open>conns\<close>, \<open>connection\<close> is the address held by \<^verbatim>\<open>self.connection\<close>
  (absent until the first successful connect). \<open>loop_tasks\<close> lists what was handed
  to \<^verbatim>\<open>loop.create_task\<close>, \<open>loop_running\<close> is false once \<^verbatim>\<open>loop.stop()\<close> ran.
\<close>

record client =
  connected :: bool
  host :: string
  port :: int
  token :: "string option"
  job_id :: "string option"
  message_id :: int
  account :: string
  callbacks :: "int list"
  resolved :: "(int \<times> json) list"
  subscriber :: "(int \<times> handler) list"
  stopping :: bool
  queue :: "dict list"
  controllers :: "(string \<times> controller) list"
  patches :: dict
  offline :: bool
  connections :: int
  connecting :: "bool future"
  connection :: "nat option"
  conns :: "nat \<Rightarrow> conn"
  next_conn :: nat
  loop_tasks :: "task list"
  loop_running :: bool

text \<open>
  What other coroutines of the event loop and the application's thread do to the
  shared state while a coroutine is suspended at an \<^verbatim>\<open>await\<close>.
\<close>

type_synonym interference = "client \<Rightarrow> client"

text \<open>
  The state after \<^verbatim>\<open>__init__\<close> and the first two statements of \<^verbatim>\<open>run\<close>: the
  future \<^verbatim>\<open>self.connecting\<close> is created and \<^verbatim>\<open>_connect\<close> is scheduled. Host, port,
  token and job id come from the environment variables.
\<close>

definition init :: "string \<Rightarrow> int \<Rightarrow> string option \<Rightarrow> string option \<Rightarrow> client" where
  "init h p tok jid =
     \<lparr>connected = False, host = h, port = p, token = tok, job_id = jid,
      message_id = 0, account = ''localhost'', callbacks = [], resolved = [],
      subscriber = [], stopping = False, queue = [], controllers = [], patches = [],
      offline = False, connections = 0, connecting = Pending, connection = None,
      conns = (\<lambda>_. \<lparr>closed = False, sent = []\<rparr>), next_conn = 0,
      loop_tasks = [ConnectTask], loop_running = True\<rparr>"

section \<open>Message correlation\<close>

text \<open>
  \<^verbatim>\<open>Client._message\<close>, up to its last \<^verbatim>\<open>await\<close>: the caller that expects a response
  is left suspended on the future stored under the new id.
\<close>

definition client_message :: "dict \<Rightarrow> bool \<Rightarrow> bool \<Rightarrow> client \<Rightarrow> json res \<times> client" where
  "client_message message lock no_response st =
     (if lock \<and> connecting st = Pending then (AwaitConnecting, st)
      else
        let st1 = st\<lparr>message_id := message_id st + 1\<rparr>;
            m = AList.update ''id'' (JInt (message_id st1)) message;
            st2 = (if \<not> no_response
                   then st1\<lparr>callbacks := List.insert (message_id st1) (callbacks st1)\<rparr>
                   else st1);
            st3 = st2\<lparr>queue := queue st2 @ [m]\<rparr>
        in if no_response then (Ret JNull, st3) else (AwaitReply (message_id st3), st3))"

text \<open>\<^verbatim>\<open>Client._subscribe\<close>.\<close>

definition client_subscribe :: "dict \<Rightarrow> handler \<Rightarrow> client \<Rightarrow> json res \<times> client" where
  "client_subscribe message h st =
     (if connecting st = Pending then (AwaitConnecting, st)
      else
        let st1 = st\<lparr>message_id := message_id st + 1\<rparr>;
            m = AList.update ''id'' (JInt (message_id st1)) message;
            st2 = st1\<lparr>subscriber := AList.update (message_id st1) h (subscriber st1)\<rparr>
        in (Ret JNull, st2\<lparr>queue := queue st2 @ [m]\<rparr>))"

text \<open>\<^verbatim>\<open>Client.patch\<close>.\<close>

definition patch :: "string \<Rightarrow> json \<Rightarrow> client \<Rightarrow> client" where
  "patch path v st =
     (if offline st then st
      else if stopping st then st
      else st\<lparr>patches := AList.update path v (patches st)\<rparr>)"

text \<open>
  A sequence of calls of the two functions that assign identifiers. Each call
  reports the \<^verbatim>\<open>id\<close> fields of the messages it appended to the queue.
\<close>

datatype call = Message dict bool bool | Subscribe dict handler

fun do_call :: "call \<Rightarrow> client \<Rightarrow> client" where
  "do_call (Message m lock no_response) st = snd (client_message m lock no_response st)"
| "do_call (Subscribe m h) st = snd (client_subscribe m h st)"

definition appended_ids :: "client \<Rightarrow> client \<Rightarrow> json option list" where
  "appended_ids st st' = map (\<lambda>m. map_of m ''id'') (drop (length (queue st)) (queue st'))"

fun run_calls :: "call list \<Rightarrow> client \<Rightarrow> json option list \<times> client" where
  "run_calls [] st = ([], st)"
| "run_calls (c # cs) st =
     (let st1 = do_call c st; (ids, st2) = run_calls cs st1
      in (appended_ids st st1 @ ids, st2))"

section \<open>Shutdown\<close>

text \<open>
  \<^verbatim>\<open>sys.last_value\<close> as \<^verbatim>\<open>stop_and_sync\<close> reads it: absent, a
  \<^verbatim>\<open>KeyboardInterrupt\<close>, or anything else.
\<close>

datatype last_value = NoLastValue | LastKeyboardInterrupt | LastOther

text \<open>
  What \<^verbatim>\<open>shutdown\<close> takes from its environment: the three readings of
  \<^verbatim>\<open>datetime.utcnow().isoformat()\<close>, \<^verbatim>\<open>sys.last_value\<close>, what the rest of the
  program does during each \<^verbatim>\<open>asyncio.sleep(0.15)\<close> of the drain loop, during
  \<^verbatim>\<open>await self.connection.close()\<close>, and between the completion of
  \<^verbatim>\<open>stop_and_sync\<close> and the return of \<^verbatim>\<open>promise.result()\<close> in the calling thread.
  Durations are not modelled: a sleep is one poll.
\<close>

record shutdown_env =
  now1 :: string
  now2 :: string
  now3 :: string
  last :: last_value
  sleeps :: "interference list"
  closing :: interference
  joined :: interference

definition terminal_patches :: "shutdown_env \<Rightarrow> dict \<Rightarrow> dict" where
  "terminal_patches env p =
     (let p1 = AList.update ''status'' (JInt 150) p;
          p2 = AList.update ''ended'' (JStr (now1 env)) p1;
          p3 = AList.update ''tasks.main.ended'' (JStr (now2 env)) p2;
          p4 = AList.update ''tasks.main.status'' (JInt 500) p3;
          p5 = AList.update ''tasks.main.instances.0.ended'' (JStr (now3 env)) p4;
          p6 = AList.update ''tasks.main.instances.0.status'' (JInt 500) p5
      in case last env of
           NoLastValue \<Rightarrow> p6
         | LastKeyboardInterrupt \<Rightarrow>
             AList.update ''tasks.main.instances.0.status'' (JInt 550)
               (AList.update ''tasks.main.status'' (JInt 550)
                 (AList.update ''status'' (JInt 200) p6))
         | LastOther \<Rightarrow>
             AList.update ''tasks.main.instances.0.status'' (JInt 650)
               (AList.update ''tasks.main.status'' (JInt 650)
                 (AList.update ''status'' (JInt 300) p6)))"

text \<open>
  The drain loop \<^verbatim>\<open>while len(self.patches) > 0 or len(self.queue) > 0\<close>: the flag
  says whether the loop was left; it is false when the run ends with the coroutine
  still polling.
\<close>

fun wait_drained :: "interference list \<Rightarrow> client \<Rightarrow> bool \<times> client" where
  "wait_drained [] st = (\<not> (patches st \<noteq> [] \<or> queue st \<noteq> []), st)"
| "wait_drained (f # fs) st =
     (if patches st \<noteq> [] \<or> queue st \<noteq> [] then wait_drained fs (f st) else (True, st))"

definition close_conn :: "nat \<Rightarrow> client \<Rightarrow> client" where
  "close_conn c st = st\<lparr>conns := (conns st)(c := (conns st c)\<lparr>closed := True\<rparr>)\<rparr>"

text \<open>\<^verbatim>\<open>Client.stop_and_sync\<close>.\<close>

definition stop_and_sync :: "shutdown_env \<Rightarrow> client \<Rightarrow> json res \<times> client" where
  "stop_and_sync env st =
     (let st1 = st\<lparr>stopping := True\<rparr>;
          st2 = st1\<lparr>patches := terminal_patches env (patches st1)\<rparr>
      in case wait_drained (sleeps env) st2 of
           (False, st3) \<Rightarrow> (Waiting, st3)
         | (True, st3) \<Rightarrow>
             (case connection st3 of
                None \<Rightarrow> (Raised (AttributeError ''connection''), st3)
              | Some c \<Rightarrow> (Ret JNull, closing env (close_conn c st3))))"

text \<open>
  \<^verbatim>\<open>Client.shutdown\<close>. \<^verbatim>\<open>promise.result()\<close> blocks while the coroutine is suspended
  and re-raises what it raised.
\<close>

definition shutdown :: "shutdown_env \<Rightarrow> client \<Rightarrow> json res \<times> client" where
  "shutdown env st =
     (if offline st then (Ret JNull, st)
      else case stop_and_sync env st of
             (Ret u, st1) \<Rightarrow>
               (let st2 = joined env st1
                in case connection st2 of
                     None \<Rightarrow> (Raised (AttributeError ''connection''), st2)
                   | Some c \<Rightarrow>
                       if \<not> closed (conns st2 c)
                       then (Raised (Exception ''Connection still active''), st2)
                       else (Ret JNull, st2\<lparr>loop_running := False\<rparr>))
           | (r, st1) \<Rightarrow> (r, st1))"

section \<open>The send loop\<close>

text \<open>
  What one \<^verbatim>\<open>await connection.send(...)\<close> meets: the interference while the
  coroutine is suspended, and whether the call returns (\<open>Ack\<close>) or raises.
\<close>

datatype send_result = Ack | SendRaises exn

type_synonym send_env = "interference \<times> send_result"

definition conn_send :: "nat \<Rightarrow> json \<Rightarrow> client \<Rightarrow> client" where
  "conn_send c frame st =
     st\<lparr>conns := (conns st)(c := (conns st c)\<lparr>sent := sent (conns st c) @ [frame]\<rparr>)\<rparr>"

text \<open>
  \<^verbatim>\<open>list.remove\<close>: drops the first element equal to \<open>m\<close>, \<open>None\<close> where Python
  raises \<^verbatim>\<open>ValueError\<close>.
\<close>

fun list_remove :: "dict \<Rightarrow> dict list \<Rightarrow> dict list option" where
  "list_remove m [] = None"
| "list_remove m (x # xs) =
     (if py_eq (JObj x) (JObj m) then Some xs
      else map_option (\<lambda>ys. x # ys) (list_remove m xs))"

text \<open>
  The first \<^verbatim>\<open>try\<close> block of \<^verbatim>\<open>send_messages\<close>: the \<^verbatim>\<open>for\<close> loop over the copy
  \<^verbatim>\<open>q = self.queue[:]\<close>. Its handler re-raises, so an exception leaves the loop.
\<close>

fun drain :: "nat \<Rightarrow> dict list \<Rightarrow> send_env list \<Rightarrow> client \<Rightarrow> json res \<times> client" where
  "drain c [] env st = (Ret JNull, st)"
| "drain c (m # q) [] st = (Waiting, st)"
| "drain c (m # q) ((f, r) # env) st =
     (case r of
        SendRaises e \<Rightarrow> (Raised e, f st)
      | Ack \<Rightarrow>
          (let st1 = f (conn_send c (JObj m) st)
           in case list_remove m (queue st1) of
                None \<Rightarrow> (Raised (ValueError ''list.remove(x): x not in list''), st1)
              | Some q' \<Rightarrow> drain c q env (st1\<lparr>queue := q'\<rparr>)))"

text \<open>The \<^verbatim>\<open>patchJob\<close> action call built from the snapshot \<^verbatim>\<open>send\<close>.\<close>

definition patch_call :: "dict \<Rightarrow> json" where
  "patch_call send =
     JObj [(''name'', JStr ''action''), (''controller'', JStr ''job''),
           (''action'', JStr ''patchJob''), (''args'', JList [JObj send]),
           (''timeout'', JInt 60)]"

text \<open>
  The loop \<^verbatim>\<open>for i in send.keys()\<close> after the patch call was sent: an entry is
  deleted when the current value equals the snapshot's.
\<close>

fun cleanup :: "string list \<Rightarrow> dict \<Rightarrow> client \<Rightarrow> json res \<times> client" where
  "cleanup [] send st = (Ret JNull, st)"
| "cleanup (i # ks) send st =
     (case map_of (patches st) i of
        None \<Rightarrow> (Raised (KeyError i), st)
      | Some cur \<Rightarrow>
          (case map_of send i of
             None \<Rightarrow> (Raised (KeyError i), st)
           | Some v \<Rightarrow>
               cleanup ks send
                 (if py_eq cur v then st\<lparr>patches := AList.delete i (patches st)\<rparr> else st)))"

text \<open>The body of the second \<^verbatim>\<open>try\<close> block, before its handlers.\<close>

definition flush_patches :: "nat \<Rightarrow> send_env \<Rightarrow> client \<Rightarrow> json res \<times> client" where
  "flush_patches c env st =
     (let send = patches st
      in case snd env of
           SendRaises e \<Rightarrow> (Raised e, fst env st)
         | Ack \<Rightarrow> cleanup (map fst send) send (fst env (conn_send c (patch_call send) st)))"

text \<open>
  One pass of the \<^verbatim>\<open>while not connection.closed\<close> loop meets the sends of the drain,
  the send of the patch call and \<^verbatim>\<open>asyncio.sleep(0.2)\<close>.
\<close>

record iteration =
  sends :: "send_env list"
  flush :: send_env
  nap :: interference

text \<open>
  \<^verbatim>\<open>Client.send_messages\<close> on the connection at address \<open>c\<close>. \<open>Ret\<close> is the loop
  left, by its condition or by a \<^verbatim>\<open>return\<close>; \<open>Waiting\<close> is the loop still running
  when the run observed ends.
\<close>

fun send_messages :: "nat \<Rightarrow> iteration list \<Rightarrow> client \<Rightarrow> json res \<times> client" where
  "send_messages c [] st = (if closed (conns st c) then (Ret JNull, st) else (Waiting, st))"
| "send_messages c (it # its) st =
     (if closed (conns st c) then (Ret JNull, st)
      else case drain c (queue st) (sends it) st of
             (Ret u, st1) \<Rightarrow>
               (if patches st1 \<noteq> []
                then case flush_patches c (flush it) st1 of
                       (Ret v, st2) \<Rightarrow> send_messages c its (nap it st2)
                     | (Raised e, st2) \<Rightarrow>
                         if is_connection_closed e then (Ret JNull, st2)
                         else if is_api_error e then (Ret JNull, st2)
                         else (Raised e, st2)
                     | (r, st2) \<Rightarrow> (r, st2)
                else send_messages c its (nap it st1))
           | (r, st1) \<Rightarrow> (r, st1))"

section \<open>Python built-ins on JSON values\<close>

text \<open>
  \<^verbatim>\<open>x[k]\<close> with a string key: only a dict can be indexed by a string, and a missing
  key raises \<^verbatim>\<open>KeyError\<close>.
\<close>

fun getitem :: "json \<Rightarrow> string \<Rightarrow> exn + json" where
  "getitem (JObj d) k = (case map_of d k of None \<Rightarrow> Inl (KeyError k) | Some v \<Rightarrow> Inr v)"
| "getitem (JStr s) k = Inl (TypeError ''string indices must be integers'')"
| "getitem (JList xs) k = Inl (TypeError ''list indices must be integers or slices, not str'')"
| "getitem _ k = Inl (TypeError ''object is not subscriptable'')"

text \<open>\<^verbatim>\<open>str\<close> of an integer: its decimal digits, most significant first.\<close>

definition digit :: "nat \<Rightarrow> char" where
  "digit d = char_of (d + 48)"

function decimal :: "nat \<Rightarrow> string" where
  "decimal n = (if 10 \<le> n then decimal (n div 10) @ [digit (n mod 10)] else [digit n])"
  by pat_completeness auto
termination
  by (relation "measure (\<lambda>n. n)") simp_all

declare decimal.simps [simp del]

definition str_int :: "int \<Rightarrow> string" where
  "str_int i = (if 0 \<le> i then decimal (nat i) else CHR ''-'' # decimal (nat (- i)))"

fun join :: "string \<Rightarrow> string list \<Rightarrow> string" where
  "join sep [] = []"
| "join sep [x] = x"
| "join sep (x # y # ys) = x @ sep @ join sep (y # ys)"

text \<open>
  \<^verbatim>\<open>repr\<close> and \<^verbatim>\<open>str\<close>. The \<^verbatim>\<open>repr\<close> of a string is written between single quotes
  without the escapes Python adds for quotes, backslashes and control characters.
\<close>

fun py_repr :: "json \<Rightarrow> string" where
  "py_repr JNull = ''None''"
| "py_repr (JBool b) = (if b then ''True'' else ''False'')"
| "py_repr (JInt i) = str_int i"
| "py_repr (JStr s) = [CHR 0x27] @ s @ [CHR 0x27]"
| "py_repr (JList xs) = ''['' @ join '', '' (map py_repr xs) @ '']''"
| "py_repr (JObj d) =
     ''{'' @ join '', '' (map (\<lambda>kv. [CHR 0x27] @ fst kv @ [CHR 0x27] @ '': '' @ py_repr (snd kv)) d)
       @ ''}''"

fun py_str :: "json \<Rightarrow> string" where
  "py_str (JStr s) = s"
| "py_str v = py_repr v"

text \<open>\<^verbatim>\<open>str(e)\<close> of a caught exception.\<close>

fun str_exn :: "exn \<Rightarrow> string" where
  "str_exn (KeyError k) = [CHR 0x27] @ k @ [CHR 0x27]"
| "str_exn (TypeError s) = s"
| "str_exn (ValueError s) = s"
| "str_exn (AttributeError s) = s"
| "str_exn (Exception s) = s"
| "str_exn (ApiError s) = s"
| "str_exn ConnectionClosedError = ''connection closed abnormally''"
| "str_exn ConnectionClosedOK = ''connection closed''"
| "str_exn InvalidStateError = ''invalid state''"

text \<open>Truth value of an object in a condition.\<close>

fun truthy :: "json \<Rightarrow> bool" where
  "truthy JNull = False"
| "truthy (JBool b) = b"
| "truthy (JInt i) = (i \<noteq> 0)"
| "truthy (JStr s) = (s \<noteq> [])"
| "truthy (JList xs) = (xs \<noteq> [])"
| "truthy (JObj d) = (d \<noteq> [])"

text \<open>
  \<^verbatim>\<open>k in x\<close> for a string \<open>k\<close>: key of a dict, element of a list, substring of a
  string; other values are not iterable.
\<close>

fun contains :: "string \<Rightarrow> json \<Rightarrow> exn + bool" where
  "contains k (JObj d) = Inr (map_of d k \<noteq> None)"
| "contains k (JList xs) = Inr (list_ex (\<lambda>x. py_eq x (JStr k)) xs)"
| "contains k (JStr s) = Inr (sublist k s)"
| "contains k _ = Inl (TypeError ''argument is not iterable'')"

text \<open>
  The key under which a value is looked up in a dict whose keys are message ids:
  an integer, or a boolean, which hashes and compares as 0 or 1. \<^verbatim>\<open>None\<close> and
  strings are hashable but equal no integer; lists and dicts are unhashable.
\<close>

fun int_key :: "json \<Rightarrow> exn + int option" where
  "int_key (JInt i) = Inr (Some i)"
| "int_key (JBool b) = Inr (Some (if b then 1 else 0))"
| "int_key JNull = Inr None"
| "int_key (JStr s) = Inr None"
| "int_key (JList xs) = Inl (TypeError ''unhashable type: list'')"
| "int_key (JObj d) = Inl (TypeError ''unhashable type: dict'')"

text \<open>\<^verbatim>\<open>hasattr\<close> and \<^verbatim>\<open>getattr\<close> on a controller; the attribute name must be a string.\<close>

fun has_attr :: "controller \<Rightarrow> json \<Rightarrow> exn + bool" where
  "has_attr ctrl (JStr a) = Inr (map_of (c_attrs ctrl) a \<noteq> None)"
| "has_attr ctrl _ = Inl (TypeError ''hasattr(): attribute name must be string'')"

fun get_attr :: "controller \<Rightarrow> json \<Rightarrow> exn + callable" where
  "get_attr ctrl (JStr a) =
     (case map_of (c_attrs ctrl) a of
        None \<Rightarrow> Inl (AttributeError
          ([CHR 0x27] @ c_class ctrl @ [CHR 0x27] @ '' object has no attribute ''
            @ [CHR 0x27] @ a @ [CHR 0x27]))
      | Some m \<Rightarrow> Inr m)"
| "get_attr ctrl _ = Inl (TypeError ''getattr(): attribute name must be string'')"

text \<open>\<^verbatim>\<open>*x\<close> in a call: the elements of a list, the characters of a string, the keys of a dict.\<close>

fun unpack :: "json \<Rightarrow> exn + json list" where
  "unpack (JList xs) = Inr xs"
| "unpack (JStr s) = Inr (map (\<lambda>c. JStr [c]) s)"
| "unpack (JObj d) = Inr (map (\<lambda>kv. JStr (fst kv)) d)"
| "unpack _ = Inl (TypeError ''argument after * must be an iterable'')"

section \<open>Actions\<close>

text \<open>
  \<^verbatim>\<open>Client._action\<close> up to the await of the response, and what it does with the
  response once the future is resolved (\<open>action_result\<close>).
\<close>

definition client_action ::
  "string \<Rightarrow> string \<Rightarrow> json list \<Rightarrow> bool \<Rightarrow> bool \<Rightarrow> client \<Rightarrow> json res \<times> client" where
  "client_action controller action args lock allow_in_shutdown st =
     (if lock \<and> connecting st = Pending then (AwaitConnecting, st)
      else if offline st then (Ret JNull, st)
      else if stopping st \<and> \<not> allow_in_shutdown
        then (Raised (Exception ''In shutdown: actions disallowed''), st)
      else if controller = [] then (Raised (Exception ''No controller given''), st)
      else if action = [] then (Raised (Exception ''No action given''), st)
      else client_message
        [(''name'', JStr ''action''), (''controller'', JStr controller),
         (''action'', JStr action), (''args'', JList args), (''timeout'', JInt 60)]
        lock False st)"

definition action_result :: "json \<Rightarrow> json res" where
  "action_result res =
     (case getitem res ''type'' of
        Inl e \<Rightarrow> Raised e
      | Inr t \<Rightarrow>
          if py_eq t (JStr ''next/json'')
          then (case getitem res ''next'' of Inl e \<Rightarrow> Ret JNull | Inr v \<Rightarrow> Ret v)
          else if py_eq t (JStr ''error'')
          then (case getitem res ''error'' of
                  Inl e \<Rightarrow> Raised e
                | Inr err \<Rightarrow> Raised (ApiError (''API Error: '' @ py_str err)))
          else Raised (ApiError
                 (''Invalid action type '' @ [CHR 0x27] @ py_str t @ [CHR 0x27]
                   @ ''. Not implemented'')))"

section \<open>Controllers\<close>

text \<open>
  The dict literal of a \<^verbatim>\<open>peerController/message\<close> reply. Python evaluates
  \<^verbatim>\<open>message['clientId']\<close> before \<^verbatim>\<open>data['id']\<close>; \<open>body\<close> gives the entries of
  \<^verbatim>\<open>data\<close> from the id.
\<close>

definition peer_message :: "string \<Rightarrow> json \<Rightarrow> json \<Rightarrow> (json \<Rightarrow> dict) \<Rightarrow> exn + dict" where
  "peer_message name message data body =
     (case getitem message ''clientId'' of
        Inl e \<Rightarrow> Inl e
      | Inr cid \<Rightarrow>
          (case getitem data ''id'' of
             Inl e \<Rightarrow> Inl e
           | Inr i \<Rightarrow>
               Inr [(''name'', JStr ''peerController/message''),
                    (''controllerName'', JStr name), (''clientId'', cid),
                    (''data'', JObj (body i))]))"

definition error_body :: "string \<Rightarrow> json \<Rightarrow> dict" where
  "error_body err i =
     [(''type'', JStr ''error''), (''id'', i), (''stack'', JNull),
      (''entityName'', JStr ''@error:default''), (''error'', JStr err)]"

text \<open>\<^verbatim>\<open>await self._message(..., no_response=True)\<close> on a message that may fail to build.\<close>

definition send_reply :: "exn + dict \<Rightarrow> client \<Rightarrow> json res \<times> client" where
  "send_reply m st =
     (case m of Inl e \<Rightarrow> (Raised e, st) | Inr msg \<Rightarrow> client_message msg True True st)"

text \<open>Sequencing of statements: the second runs when the first returned.\<close>

definition and_then ::
  "json res \<times> client \<Rightarrow> (client \<Rightarrow> json res \<times> client) \<Rightarrow> json res \<times> client" where
  "and_then r k = (case r of (Ret v, st) \<Rightarrow> k st | (other, st) \<Rightarrow> (other, st))"

text \<open>Lines 121 to 130: the action is not an attribute of the controller.\<close>

definition on_missing_action ::
  "string \<Rightarrow> controller \<Rightarrow> json \<Rightarrow> json \<Rightarrow> client \<Rightarrow> json res \<times> client" where
  "on_missing_action name ctrl message data st =
     (case getitem data ''action'' of
        Inl e \<Rightarrow> (Raised e, st)
      | Inr a \<Rightarrow>
          (case has_attr ctrl a of
             Inl e \<Rightarrow> (Raised e, st)
           | Inr True \<Rightarrow> (Ret JNull, st)
           | Inr False \<Rightarrow>
               (case getitem message ''action'' of
                  Inl e \<Rightarrow> (Raised e, st)
                | Inr ma \<Rightarrow>
                    send_reply
                      (peer_message name message data
                        (error_body
                          (''Requested action '' @ py_str ma @ '' not available in '' @ name)))
                      st)))"

text \<open>Lines 132 to 153: the \<^verbatim>\<open>actionTypes\<close> request.\<close>

definition on_action_types ::
  "string \<Rightarrow> controller \<Rightarrow> json \<Rightarrow> json \<Rightarrow> client \<Rightarrow> json res \<times> client" where
  "on_action_types name ctrl message data st =
     (case getitem data ''name'' of
        Inl e \<Rightarrow> (Raised e, st)
      | Inr n \<Rightarrow>
          if \<not> py_eq n (JStr ''actionTypes'') then (Ret JNull, st)
          else
            (case getitem data ''action'' of
               Inl e \<Rightarrow> (Raised e, st)
             | Inr a \<Rightarrow>
                 (case get_attr ctrl a of
                    Inl e \<Rightarrow> (Raised e, st)
                  | Inr m \<Rightarrow>
                      send_reply
                        (peer_message name message data
                          (\<lambda>i. [(''type'', JStr ''actionTypes/result''), (''id'', i),
                                (''parameters'',
                                   JList (map (\<lambda>k. JObj [(''type'', JStr ''any''),
                                       (''name'', JStr (''#'' @ decimal k))])
                                     [0 ..< length (m_args m)])),
                                (''returnType'',
                                   JObj [(''type'', JStr ''any''), (''name'', JStr ''result'')])]))
                        st)))"

text \<open>
  The call \<^verbatim>\<open>getattr(controller, data['action'])(*data['args'])\<close>, in Python's order
  of evaluation.
\<close>

definition invoke :: "controller \<Rightarrow> json \<Rightarrow> exn + json" where
  "invoke ctrl data =
     (case getitem data ''action'' of
        Inl e \<Rightarrow> Inl e
      | Inr a \<Rightarrow>
          (case get_attr ctrl a of
             Inl e \<Rightarrow> Inl e
           | Inr m \<Rightarrow>
               (case getitem data ''args'' of
                  Inl e \<Rightarrow> Inl e
                | Inr args \<Rightarrow>
                    (case unpack args of Inl e \<Rightarrow> Inl e | Inr xs \<Rightarrow> m_call m xs))))"

text \<open>
  Lines 155 to 177: the \<^verbatim>\<open>action\<close> request. Whatever the \<^verbatim>\<open>try\<close> block raises is an
  \<^verbatim>\<open>Exception\<close> and reaches the handler, which reports \<^verbatim>\<open>str(e)\<close>.
\<close>

definition on_action ::
  "string \<Rightarrow> controller \<Rightarrow> json \<Rightarrow> json \<Rightarrow> client \<Rightarrow> json res \<times> client" where
  "on_action name ctrl message data st =
     (case getitem data ''name'' of
        Inl e \<Rightarrow> (Raised e, st)
      | Inr n \<Rightarrow>
          if \<not> py_eq n (JStr ''action'') then (Ret JNull, st)
          else
            (case (case invoke ctrl data of
                     Inl e \<Rightarrow> Inl e
                   | Inr r \<Rightarrow>
                       peer_message name message data
                         (\<lambda>i. [(''type'', JStr ''next/json''), (''id'', i),
                               (''encoding'', JObj [(''name'', JStr ''r''), (''type'', JStr ''any'')]),
                               (''next'', r)])) of
               Inr msg \<Rightarrow> client_message msg True True st
             | Inl e \<Rightarrow>
                 send_reply (peer_message name message data (error_body (str_exn e))) st))"

text \<open>
  Lines 110 to 113: the registration was rejected. \<^verbatim>\<open>done()\<close> deletes the
  subscription stored under \<open>mid\<close>, the id \<^verbatim>\<open>_subscribe\<close> assigned.
\<close>

definition on_error :: "string \<Rightarrow> int \<Rightarrow> json \<Rightarrow> client \<Rightarrow> json res \<times> client" where
  "on_error name mid message st =
     (if map_of (subscriber st) mid = None then (Raised (KeyError (str_int mid)), st)
      else
        let st1 = st\<lparr>subscriber := AList.delete mid (subscriber st)\<rparr>
        in if map_of (controllers st1) name = None then (Raised (KeyError name), st1)
           else
             let st2 = st1\<lparr>controllers := AList.delete name (controllers st1)\<rparr>
             in case getitem message ''error'' of
                  Inl e \<Rightarrow> (Raised e, st2)
                | Inr (JStr err) \<Rightarrow>
                    (Raised (Exception (''Register controller error: '' @ err)), st2)
                | Inr other \<Rightarrow>
                    (Raised (TypeError ''can only concatenate str to str''), st2))"

text \<open>The closure \<^verbatim>\<open>subscriber\<close> of \<^verbatim>\<open>register_controller\<close>.\<close>

definition register_subscriber ::
  "string \<Rightarrow> controller \<Rightarrow> int \<Rightarrow> json \<Rightarrow> client \<Rightarrow> json res \<times> client" where
  "register_subscriber name ctrl mid message st =
     (case getitem message ''type'' of
        Inl e \<Rightarrow> (Raised e, st)
      | Inr t \<Rightarrow>
          if py_eq t (JStr ''error'') then on_error name mid message st
          else if py_eq t (JStr ''peerController/message'') then
            (case getitem message ''data'' of
               Inl e \<Rightarrow> (Raised e, st)
             | Inr data \<Rightarrow>
                 and_then (on_missing_action name ctrl message data st)
                   (\<lambda>st1. and_then (on_action_types name ctrl message data st1)
                     (on_action name ctrl message data)))
          else (Ret JNull, st))"

fun run_handler :: "handler \<Rightarrow> int \<Rightarrow> json \<Rightarrow> client \<Rightarrow> json res \<times> client" where
  "run_handler (RegisterSubscriber name ctrl) mid message st =
     register_subscriber name ctrl mid message st"

text \<open>\<^verbatim>\<open>Client.register_controller\<close>; the handle it returns carries the name.\<close>

datatype controller_handle = Controller string

definition register_controller ::
  "string \<Rightarrow> controller \<Rightarrow> client \<Rightarrow> controller_handle res \<times> client" where
  "register_controller name ctrl st =
     (let st1 = st\<lparr>controllers := AList.update name ctrl (controllers st)\<rparr>;
          (r, st2) = client_subscribe
            [(''name'', JStr ''peerController/register''), (''controllerName'', JStr name)]
            (RegisterSubscriber name ctrl) st1
      in (map_res (\<lambda>v. Controller name) r, st2))"

section \<open>The receive loop\<close>

text \<open>Lines 313 to 319: what \<^verbatim>\<open>handle_messages\<close> does with one decoded frame.\<close>

definition resolve :: "int option \<Rightarrow> json \<Rightarrow> client \<Rightarrow> json res \<times> client" where
  "resolve k res st =
     (case k of
        None \<Rightarrow> (Ret JNull, st)
      | Some n \<Rightarrow>
          if n \<in> set (callbacks st)
          then (Ret JNull, st\<lparr>resolved := resolved st @ [(n, res)],
                              callbacks := removeAll n (callbacks st)\<rparr>)
          else (Ret JNull, st))"

definition deliver :: "int option \<Rightarrow> json \<Rightarrow> client \<Rightarrow> json res \<times> client" where
  "deliver k res st =
     (case k of
        None \<Rightarrow> (Ret JNull, st)
      | Some n \<Rightarrow>
          (case map_of (subscriber st) n of
             None \<Rightarrow> (Ret JNull, st)
           | Some h \<Rightarrow> run_handler h n res st))"

definition dispatch :: "json \<Rightarrow> client \<Rightarrow> json res \<times> client" where
  "dispatch res st =
     (if \<not> truthy res then (Ret JNull, st)
      else case contains ''id'' res of
             Inl e \<Rightarrow> (Raised e, st)
           | Inr False \<Rightarrow> (Ret JNull, st)
           | Inr True \<Rightarrow>
               (case getitem res ''id'' of
                  Inl e \<Rightarrow> (Raised e, st)
                | Inr i \<Rightarrow>
                    (case int_key i of
                       Inl e \<Rightarrow> (Raised e, st)
                     | Inr k \<Rightarrow> and_then (deliver k res st) (resolve k res))))"

text \<open>
  What one \<^verbatim>\<open>await connection.recv()\<close> followed by \<^verbatim>\<open>json.loads\<close> meets: a decoded
  frame, text that is not JSON, or an exception of \<^verbatim>\<open>recv\<close>.
\<close>

datatype recv_result = Frame json | Malformed | RecvRaises exn

text \<open>Lines 321 to 325, after the loop.\<close>

definition reconnect :: "client \<Rightarrow> client" where
  "reconnect st =
     (if \<not> stopping st
      then st\<lparr>connecting := Pending, connected := False,
              loop_tasks := loop_tasks st @ [ConnectTask]\<rparr>
      else st)"

text \<open>\<^verbatim>\<open>Client.handle_messages\<close> on the connection at address \<open>c\<close>.\<close>

fun handle_messages ::
  "nat \<Rightarrow> (interference \<times> recv_result) list \<Rightarrow> client \<Rightarrow> json res \<times> client" where
  "handle_messages c [] st =
     (if closed (conns st c) then (Ret JNull, reconnect st) else (Waiting, st))"
| "handle_messages c ((f, r) # env) st =
     (if closed (conns st c) then (Ret JNull, reconnect st)
      else case r of
             RecvRaises e \<Rightarrow>
               if e = ConnectionClosedError then (Ret JNull, reconnect (f st))
               else if e = ConnectionClosedOK then (Ret JNull, f st)
               else (Raised e, f st)
           | Malformed \<Rightarrow> (Raised (ValueError ''JSONDecodeError''), f st)
           | Frame res \<Rightarrow> and_then (dispatch res (f st)) (handle_messages c env))"

section \<open>Connecting\<close>

text \<open>
  What \<^verbatim>\<open>get_home_config\<close> and its lookups hand to \<^verbatim>\<open>_connect\<close> in user mode: the
  account to connect to. That code is outside the client.
\<close>

record account_config =
  ac_name :: string
  ac_host :: string
  ac_port :: int
  ac_ssl :: bool
  ac_token :: string

text \<open>
  \<^verbatim>\<open>self.connection = await websockets.connect(...)\<close> succeeded, and the two loops are
  handed to the event loop.
\<close>

definition open_connection :: "client \<Rightarrow> client" where
  "open_connection st =
     (let c = next_conn st
      in st\<lparr>connection := Some c, next_conn := Suc c,
            conns := (conns st)(c := \<lparr>closed = False, sent = []\<rparr>),
            loop_tasks := loop_tasks st @ [HandleMessagesTask c, SendMessagesTask c]\<rparr>)"

text \<open>
  \<^verbatim>\<open>Client._connect_job\<close> up to the await of the authentication response.
  \<open>attempt\<close> is the interference during \<^verbatim>\<open>websockets.connect\<close> and whether it
  succeeded, \<open>pause\<close> the interference during \<^verbatim>\<open>asyncio.sleep(1)\<close>.
\<close>

definition client_connect_job ::
  "interference \<times> bool \<Rightarrow> interference \<Rightarrow> string option \<Rightarrow> string \<Rightarrow> client
    \<Rightarrow> json res \<times> client" where
  "client_connect_job attempt pause jid tok st =
     (let st1 = fst attempt st
      in if \<not> snd attempt
         then (let st2 = pause st1
               in (Ret JNull, st2\<lparr>loop_tasks := loop_tasks st2 @ [ConnectTask]\<rparr>))
         else client_message
           [(''name'', JStr ''authenticate''),
            (''token'', JObj [(''id'', JStr ''job''), (''token'', JStr tok),
               (''job'', case jid of None \<Rightarrow> JNull | Some j \<Rightarrow> JStr j)])]
           False False (open_connection st1))"

text \<open>
  \<^verbatim>\<open>Client._connect\<close> up to its first await of a response: in job mode that of
  \<^verbatim>\<open>_connect_job\<close>, in user mode the authentication with the account's token. What
  follows that response (project lookup, job creation, the hand-over to job mode)
  is not modelled. \<open>cfg\<close> is what the account lookup returns or raises.
\<close>

definition client_connect ::
  "exn + account_config \<Rightarrow> interference \<times> bool \<Rightarrow> interference \<Rightarrow> client
    \<Rightarrow> json res \<times> client" where
  "client_connect cfg attempt pause st =
     (let queue_copy = queue st; st0 = st\<lparr>queue := []\<rparr>
      in case token st0 of
           Some tok \<Rightarrow>
             (case client_connect_job attempt pause (job_id st0) tok st0 of
                (Ret v, st1) \<Rightarrow> (Ret JNull, st1\<lparr>queue := queue_copy @ queue st1\<rparr>)
              | (r, st1) \<Rightarrow> (r, st1))
         | None \<Rightarrow>
             (case cfg of
                Inl e \<Rightarrow> (Raised e, st0)
              | Inr ac \<Rightarrow>
                  (let st1 = fst attempt (st0\<lparr>host := ac_host ac, port := ac_port ac\<rparr>)
                   in if \<not> snd attempt
                      then (if connecting st1 = Pending
                            then (Ret JNull, st1\<lparr>offline := True, connecting := Done False\<rparr>)
                            else (Raised InvalidStateError, st1\<lparr>offline := True\<rparr>))
                      else client_message
                        [(''name'', JStr ''authenticate''),
                         (''token'', JObj [(''id'', JStr ''user''), (''token'', JStr (ac_token ac))])]
                        False False (open_connection st1))))"

section \<open>Scenarios\<close>

text \<open>
  A client in job mode after its first successful authentication: one open
  connection at address 0, the receive and the send loop running on it.
\<close>

definition connected_client :: client where
  "connected_client =
     (init ''127.0.0.1'' 8960 (Some ''T'') (Some ''J1''))
       \<lparr>connected := True, connections := 1, connecting := Done True,
        connection := Some 0, next_conn := 1,
        loop_tasks := [ConnectTask, HandleMessagesTask 0, SendMessagesTask 0]\<rparr>"

text \<open>The same client with one fire-and-forget message in its queue.\<close>

definition one_queued :: client where
  "one_queued = snd (client_message [(''name'', JStr ''first'')] True True connected_client)"

text \<open>
  While the send loop is suspended in \<^verbatim>\<open>connection.send\<close>, another coroutine
  enqueues a message and the application then patches a path.
\<close>

definition enqueue_then_patch :: interference where
  "enqueue_then_patch st =
     patch ''title'' (JStr ''x'')
       (snd (client_message [(''name'', JStr ''create'')] True True st))"





text \<open>The account a user-mode client finds in its home configuration.\<close>

definition local_account :: account_config where
  "local_account =
     \<lparr>ac_name = ''localhost'', ac_host = ''127.0.0.1'', ac_port = 8960, ac_ssl = False,
      ac_token = ''secret''\<rparr>"


text \<open>
  The correlation tables hold only ids the counter has handed out, and no id is in
  both.
\<close>

definition tables_fresh :: "client \<Rightarrow> bool" where
  "tables_fresh st \<longleftrightarrow>
     (\<forall>i \<in> set (callbacks st). i \<le> message_id st)
     \<and> (\<forall>i \<in> fst ` set (subscriber st). i \<le> message_id st)
     \<and> set (callbacks st) \<inter> fst ` set (subscriber st) = {}"

text \<open>A controller with one method, registered by a connected client that also awaits
  the response to one call: the call has id 1, the registration id 2.\<close>

definition trainer :: controller where
  "trainer =
     \<lparr>c_class = ''Trainer'',
      c_attrs = [(''ping'', \<lparr>m_args = [''self''], m_call = (\<lambda>xs. Inr (JStr ''pong''))\<rparr>)]\<rparr>"

definition registered :: client where
  "registered =
     snd (register_controller ''trainer'' trainer
       (snd (client_message [(''name'', JStr ''action'')] True False connected_client)))"


text \<open>
  A peer asks for the action \<open>missing\<close>, which the controller does not have; the
  second frame carries the action name at the top level as well.
\<close>

definition invoke_missing :: json where
  "invoke_missing =
     JObj [(''id'', JInt 2), (''type'', JStr ''peerController/message''),
           (''clientId'', JStr ''c1''),
           (''data'', JObj [(''name'', JStr ''action''), (''action'', JStr ''missing''),
                            (''id'', JInt 7), (''args'', JList [])])]"

definition invoke_missing_named :: json where
  "invoke_missing_named =
     JObj [(''id'', JInt 2), (''type'', JStr ''peerController/message''),
           (''clientId'', JStr ''c1''), (''action'', JStr ''missing''),
           (''data'', JObj [(''name'', JStr ''action''), (''action'', JStr ''missing''),
                            (''id'', JInt 7), (''args'', JList [])])]"

section \<open>Identifiers\<close>

lemma message_id_client_message:
  "message_id st \<le> message_id (snd (client_message m lock nr st))"
  by (simp add: client_message_def Let_def)

lemma message_id_client_subscribe:
  "message_id st \<le> message_id (snd (client_subscribe m h st))"
  by (simp add: client_subscribe_def Let_def)

lemma message_id_do_call: "message_id st \<le> message_id (do_call c st)"
  by (cases c) (simp_all add: message_id_client_message message_id_client_subscribe)

lemma appended_ids_do_call:
  "appended_ids st (do_call c st) = [] \<and> message_id (do_call c st) = message_id st
   \<or> appended_ids st (do_call c st) = [Some (JInt (message_id st + 1))]
     \<and> message_id (do_call c st) = message_id st + 1"
  by (cases c)
    (simp_all add: appended_ids_def client_message_def client_subscribe_def Let_def
      update_conv')

lemma run_calls_ids:
  "run_calls cs st = (ids, st') \<Longrightarrow>
   \<exists>ns. ids = map (\<lambda>n. Some (JInt n)) ns \<and> sorted_wrt (<) ns
     \<and> (\<forall>n \<in> set ns. message_id st < n \<and> n \<le> message_id st')
     \<and> message_id st \<le> message_id st'"
proof (induction cs arbitrary: st ids st')
  case Nil
  then show ?case by simp
next
  case (Cons c cs)
  obtain ids2 where r: "run_calls cs (do_call c st) = (ids2, st')"
    and i: "ids = appended_ids st (do_call c st) @ ids2"
    using Cons.prems by (auto simp: Let_def split: prod.splits)
  from Cons.IH [OF r] obtain ns where
    ns: "ids2 = map (\<lambda>n. Some (JInt n)) ns" "sorted_wrt (<) ns"
      "\<forall>n \<in> set ns. message_id (do_call c st) < n \<and> n \<le> message_id st'"
      "message_id (do_call c st) \<le> message_id st'"
    by blast
  from appended_ids_do_call [of st c] show ?case
  proof
    assume a: "appended_ids st (do_call c st) = [] \<and> message_id (do_call c st) = message_id st"
    show ?thesis
      by (rule exI [of _ ns]) (use a i ns in auto)
  next
    assume a: "appended_ids st (do_call c st) = [Some (JInt (message_id st + 1))]
      \<and> message_id (do_call c st) = message_id st + 1"
    show ?thesis
      by (rule exI [of _ "(message_id st + 1) # ns"]) (use a i ns in force)
  qed
qed

text \<open>
  C8. The counter starts at 0 and nothing but \<^verbatim>\<open>_message\<close> and \<^verbatim>\<open>_subscribe\<close>
  writes it, so it is never negative. From any such state, the identifiers that a
  sequence of \<^verbatim>\<open>_message\<close> and \<^verbatim>\<open>_subscribe\<close> calls writes into the messages it
  enqueues are integers, strictly increasing in the order of assignment, hence
  pairwise distinct, and none of them is zero.
\<close>

theorem assigned_ids_increasing:
  "0 \<le> message_id st \<Longrightarrow>
   \<exists>ns. fst (run_calls cs st) = map (\<lambda>n. Some (JInt n)) ns
     \<and> sorted_wrt (<) ns \<and> distinct ns \<and> 0 \<notin> set ns"
proof -
  assume nonneg: "0 \<le> message_id st"
  obtain ids st' where r: "run_calls cs st = (ids, st')"
    by (cases "run_calls cs st")
  from run_calls_ids [OF r] obtain ns where
    ns: "ids = map (\<lambda>n. Some (JInt n)) ns" "sorted_wrt (<) ns"
      "\<forall>n \<in> set ns. message_id st < n \<and> n \<le> message_id st'"
    by blast
  have "distinct ns"
    using ns(2) by (simp add: strict_sorted_iff)
  moreover have "0 \<notin> set ns"
    using ns(3) nonneg by auto
  ultimately show ?thesis
    using r ns(1,2) by auto
qed

theorem assigned_ids_increasing_witness:
  "0 \<le> message_id connected_client
   \<and> fst (run_calls
        [Message [(''name'', JStr ''a'')] True False,
         Subscribe [(''name'', JStr ''b'')] (RegisterSubscriber ''c'' \<lparr>c_class = ''C'', c_attrs = []\<rparr>),
         Message [(''name'', JStr ''d'')] False True] connected_client)
       = [Some (JInt 1), Some (JInt 2), Some (JInt 3)]
   \<and> (\<exists>ns. fst (run_calls
        [Message [(''name'', JStr ''a'')] True False,
         Subscribe [(''name'', JStr ''b'')] (RegisterSubscriber ''c'' \<lparr>c_class = ''C'', c_attrs = []\<rparr>),
         Message [(''name'', JStr ''d'')] False True] connected_client)
       = map (\<lambda>n. Some (JInt n)) ns
     \<and> sorted_wrt (<) ns \<and> distinct ns \<and> 0 \<notin> set ns)"
  using assigned_ids_increasing
    [of connected_client
        "[Message [(''name'', JStr ''a'')] True False,
          Subscribe [(''name'', JStr ''b'')] (RegisterSubscriber ''c'' \<lparr>c_class = ''C'', c_attrs = []\<rparr>),
          Message [(''name'', JStr ''d'')] False True]"]
  by (simp add: connected_client_def init_def client_message_def client_subscribe_def
      appended_ids_def Let_def)

section \<open>The send loop: patches\<close>







section \<open>The send loop: ordering of messages and patch batches\<close>

text \<open>
  C1, at a concrete run. The queue holds the message \<open>first\<close>. While the send loop
  is suspended in the send of \<open>first\<close>, the message \<open>create\<close> is enqueued and the path
  \<open>title\<close> is patched. The loop removes \<open>first\<close>, builds the patch batch and sends it
  with \<open>create\<close> still in the queue: \<open>create\<close> reaches the wire in the next pass,
  after the batch.
\<close>

theorem patch_batch_overtakes_queued_message:
  "send_messages 0
     [\<lparr>sends = [(enqueue_then_patch, Ack)], flush = (id, Ack), nap = id\<rparr>,
      \<lparr>sends = [(id, Ack)], flush = (id, Ack), nap = id\<rparr>] one_queued
   = (Waiting,
      one_queued\<lparr>message_id := 2, queue := [], patches := [],
        conns := (conns one_queued)
          (0 := \<lparr>closed = False,
                 sent = [JObj [(''name'', JStr ''first''), (''id'', JInt 1)],
                         patch_call [(''title'', JStr ''x'')],
                         JObj [(''name'', JStr ''create''), (''id'', JInt 2)]]\<rparr>)\<rparr>)"
  by (simp add: one_queued_def enqueue_then_patch_def connected_client_def init_def
      client_message_def patch_def conn_send_def flush_patches_def patch_call_def Let_def)


section \<open>Shutdown\<close>







section \<open>Offline mode\<close>

text \<open>
  C9. In user mode (no job token), when \<^verbatim>\<open>websockets.connect\<close> raises, \<^verbatim>\<open>_connect\<close>
  returns having set \<^verbatim>\<open>offline\<close> and resolved \<^verbatim>\<open>connecting\<close> with \<^verbatim>\<open>False\<close>, and
  nothing else: it opens no connection and schedules no task, so no loop runs and
  nothing reconnects. In such a state \<^verbatim>\<open>patch\<close>, \<^verbatim>\<open>_action\<close> and \<^verbatim>\<open>shutdown\<close> return
  at once, without an exception and with the state unchanged, and the functions
  that assign identifiers leave the client offline and schedule nothing.
\<close>

theorem offline_after_failed_connect:
  "(token st = None
      \<and> connecting (f (st\<lparr>queue := [], host := ac_host ac, port := ac_port ac\<rparr>)) = Pending
    \<longrightarrow> client_connect (Inr ac) (f, False) pause st
        = (Ret JNull,
           (f (st\<lparr>queue := [], host := ac_host ac, port := ac_port ac\<rparr>))
             \<lparr>offline := True, connecting := Done False\<rparr>))
   \<and> (offline s \<and> connecting s = Done False
    \<longrightarrow> patch path v s = s
      \<and> client_action ctl act args lock ais s = (Ret JNull, s)
      \<and> shutdown env s = (Ret JNull, s)
      \<and> offline (do_call c s) \<and> connecting (do_call c s) = Done False
      \<and> loop_tasks (do_call c s) = loop_tasks s)"
  by (cases c)
    (simp_all add: client_connect_def Let_def patch_def client_action_def shutdown_def
      client_message_def client_subscribe_def)

theorem offline_after_failed_connect_witness:
  "token (init ''127.0.0.1'' 8960 None None) = None
   \<and> connecting (id ((init ''127.0.0.1'' 8960 None None)
        \<lparr>queue := [], host := ac_host local_account, port := ac_port local_account\<rparr>)) = Pending
   \<and> offline (snd (client_connect (Inr local_account) (id, False) id
        (init ''127.0.0.1'' 8960 None None)))
   \<and> connecting (snd (client_connect (Inr local_account) (id, False) id
        (init ''127.0.0.1'' 8960 None None))) = Done False
   \<and> loop_tasks (snd (client_connect (Inr local_account) (id, False) id
        (init ''127.0.0.1'' 8960 None None))) = [ConnectTask]
   \<and> connection (snd (client_connect (Inr local_account) (id, False) id
        (init ''127.0.0.1'' 8960 None None))) = None
   \<and> patch ''loss'' (JInt 1) (snd (client_connect (Inr local_account) (id, False) id
        (init ''127.0.0.1'' 8960 None None)))
      = snd (client_connect (Inr local_account) (id, False) id (init ''127.0.0.1'' 8960 None None))
   \<and> client_action ''job'' ''log'' [] True False
        (snd (client_connect (Inr local_account) (id, False) id
          (init ''127.0.0.1'' 8960 None None)))
      = (Ret JNull, snd (client_connect (Inr local_account) (id, False) id
          (init ''127.0.0.1'' 8960 None None)))"
proof -
  let ?st = "init ''127.0.0.1'' 8960 None None"
  have h: "token ?st = None"
    "connecting (id (?st\<lparr>queue := [], host := ac_host local_account,
       port := ac_port local_account\<rparr>)) = Pending"
    by (simp_all add: init_def)
  from offline_after_failed_connect [of ?st id local_account id] h
  have run: "client_connect (Inr local_account) (id, False) id ?st
      = (Ret JNull, (id (?st\<lparr>queue := [], host := ac_host local_account,
           port := ac_port local_account\<rparr>))\<lparr>offline := True, connecting := Done False\<rparr>)"
    by blast
  have off: "offline (snd (client_connect (Inr local_account) (id, False) id ?st))"
    "connecting (snd (client_connect (Inr local_account) (id, False) id ?st)) = Done False"
    "loop_tasks (snd (client_connect (Inr local_account) (id, False) id ?st)) = [ConnectTask]"
    "connection (snd (client_connect (Inr local_account) (id, False) id ?st)) = None"
    by (simp_all add: run) (simp_all add: init_def)
  from offline_after_failed_connect
    [of _ _ _ _ "snd (client_connect (Inr local_account) (id, False) id ?st)"
        "''loss''" "JInt 1" "''job''" "''log''" "[]" True False] off(1,2)
  have "patch ''loss'' (JInt 1) (snd (client_connect (Inr local_account) (id, False) id ?st))
      = snd (client_connect (Inr local_account) (id, False) id ?st)"
    "client_action ''job'' ''log'' [] True False
        (snd (client_connect (Inr local_account) (id, False) id ?st))
      = (Ret JNull, snd (client_connect (Inr local_account) (id, False) id ?st))"
    by blast+
  with h off show ?thesis by blast
qed

section \<open>The receive loop: dispatch of an inbound message\<close>
















section \<open>Controller registration rejected\<close>




section \<open>Invocation of an action the controller does not have\<close>

text \<open>
  C2, at a concrete run. The peer message names the action in \<^verbatim>\<open>data\<close>; the
  handler formats its error text from \<^verbatim>\<open>message['action']\<close>, which the message does
  not have. The \<^verbatim>\<open>KeyError\<close> leaves the handler and \<^verbatim>\<open>handle_messages\<close>: no response
  is enqueued and the second frame is never read.
\<close>

theorem missing_action_crashes_receive_loop:
  "handle_messages 0 [(id, Frame invoke_missing), (id, Frame invoke_missing)] registered
     = (Raised (KeyError ''action''), registered)"
  by (simp add: registered_def trainer_def connected_client_def init_def
      register_controller_def client_message_def client_subscribe_def Let_def
      invoke_missing_def dispatch_def and_then_def deliver_def
      register_subscriber_def on_missing_action_def)

text \<open>
  When the message does carry \<open>action\<close> at its top level, the error response is
  enqueued, the handler goes on to the \<^verbatim>\<open>action\<close> branch, \<^verbatim>\<open>getattr\<close> raises there
  and a second error response follows.
\<close>

lemma missing_action_named_two_replies:
  "fst (handle_messages 0 [(id, Frame invoke_missing_named)] registered) = Waiting
   \<and> map (\<lambda>m. map_of m ''data'')
       (drop 2 (queue (snd (handle_messages 0 [(id, Frame invoke_missing_named)] registered))))
     = [Some (JObj (error_body ''Requested action missing not available in trainer'' (JInt 7))),
        Some (JObj (error_body
          ([CHR 0x27] @ ''Trainer'' @ [CHR 0x27] @ '' object has no attribute ''
             @ [CHR 0x27] @ ''missing'' @ [CHR 0x27]) (JInt 7)))]"
  by (simp add: registered_def trainer_def connected_client_def init_def
      register_controller_def client_message_def client_subscribe_def Let_def
      invoke_missing_named_def dispatch_def and_then_def deliver_def
      register_subscriber_def on_missing_action_def on_action_types_def on_action_def
      send_reply_def peer_message_def invoke_def resolve_def)

section \<open>Shutdown of an offline client\<close>

text \<open>
  C10. On a client in offline mode \<^verbatim>\<open>shutdown\<close> returns at once and leaves the whole
  state as it was: no terminal status patch is written, \<^verbatim>\<open>stopping\<close> is not set, no
  connection is closed and the event loop is not stopped.
\<close>

theorem shutdown_offline_noop:
  "offline st \<Longrightarrow> shutdown env st = (Ret JNull, st)"
  by (simp add: shutdown_def)

theorem shutdown_offline_noop_witness:
  "offline ((init ''127.0.0.1'' 8960 None None)\<lparr>offline := True\<rparr>)
   \<and> shutdown \<lparr>now1 = ''a'', now2 = ''b'', now3 = ''c'', last = NoLastValue,
         sleeps = [], closing = id, joined = id\<rparr>
       ((init ''127.0.0.1'' 8960 None None)\<lparr>offline := True\<rparr>)
     = (Ret JNull, (init ''127.0.0.1'' 8960 None None)\<lparr>offline := True\<rparr>)"
  using shutdown_offline_noop
    [of "(init ''127.0.0.1'' 8960 None None)\<lparr>offline := True\<rparr>"
        "\<lparr>now1 = ''a'', now2 = ''b'', now3 = ''c'', last = NoLastValue,
          sleeps = [], closing = id, joined = id\<rparr>"]
  by simp

end
